theory Spec2Isabelle
  imports Complex_Main
begin

section \<open>The price service of \<open>api/app.js\<close>\<close>

text \<open>
  The service keeps two process-wide tables, \<open>cache\<close> and \<open>rateLimiter\<close> (both a
  JavaScript \<open>Map\<close>), and reads the clock with \<open>Date.now()\<close>. In this development
  every function that touches a table takes it as an argument and returns the table it
  leaves behind, and every clock reading is an argument: an integer number of
  milliseconds, as \<open>Date.now()\<close> returns.
\<close>

subsection \<open>Constants\<close>

definition CACHE_DURATION :: int where
  "CACHE_DURATION = 5 * 60 * 1000"

definition RATE_LIMIT_WINDOW :: int where
  "RATE_LIMIT_WINDOW = 60 * 1000"

definition MAX_REQUESTS_PER_MINUTE :: nat where
  "MAX_REQUESTS_PER_MINUTE = 50"

subsection \<open>Rate limiting\<close>

type_synonym rate_table = "string \<rightharpoonup> int list"

text \<open>
  \<open>checkRateLimit(ip)\<close>: a key the table does not hold is first bound to the empty
  array; \<open>filter\<close> builds a new array and leaves the stored one alone; only the
  admitting branch writes the pruned array back.
\<close>

definition checkRateLimit :: "int \<Rightarrow> string \<Rightarrow> rate_table \<Rightarrow> bool \<times> rate_table" where
  "checkRateLimit now ip rateLimiter =
     (let windowStart = now - RATE_LIMIT_WINDOW;
          rateLimiter1 = (if rateLimiter ip = None then rateLimiter(ip \<mapsto> []) else rateLimiter);
          requests = (case rateLimiter1 ip of Some r \<Rightarrow> r | None \<Rightarrow> []);
          recentRequests = filter (\<lambda>time. time > windowStart) requests
      in if length recentRequests \<ge> MAX_REQUESTS_PER_MINUTE
         then (False, rateLimiter1)
         else (True, rateLimiter1(ip \<mapsto> recentRequests @ [now])))"

text \<open>The timestamps recorded for a client; none when the table has no entry for it.\<close>

definition window_of :: "rate_table \<Rightarrow> string \<Rightarrow> int list" where
  "window_of rateLimiter ip = (case rateLimiter ip of Some r \<Rightarrow> r | None \<Rightarrow> [])"

text \<open>The timestamps of a window that a check at time \<open>now\<close> keeps.\<close>

definition recent :: "int \<Rightarrow> int list \<Rightarrow> int list" where
  "recent now ts = filter (\<lambda>time. time > now - RATE_LIMIT_WINDOW) ts"

subsection \<open>Price records and the cache\<close>

text \<open>
  JSON values, and what a JavaScript expression can yield beside them: \<open>undefined\<close>,
  or a function or object of the runtime (\<open>Builtin\<close>), such as the members every
  object inherits.
\<close>

datatype json =
    JNull
  | JBool bool
  | JNum real
  | JStr string
  | JArr "json list"
  | JObj "(string \<times> json) list"

datatype js_value = Undefined | Json json | Builtin

text \<open>
  A price record \<open>{name, symbol, price}\<close>. Its price is whatever
  \<open>priceResponse.data[id].usd\<close> yielded: a JSON value, or nothing when that was
  \<open>undefined\<close> (\<open>res.json\<close> then leaves the member out).
\<close>

record price_record =
  name :: string
  symbol :: string
  price :: "json option"

record cache_entry =
  data :: price_record
  timestamp :: int

type_synonym cache_table = "string \<rightharpoonup> cache_entry"

text \<open>
  \<open>getCachedData(id)\<close> reads the table and the clock and writes nothing; the table it
  leaves behind is returned with the answer. A stored \<open>data\<close> is an object, hence truthy.
\<close>

definition getCachedData :: "int \<Rightarrow> string \<Rightarrow> cache_table \<Rightarrow> price_record option \<times> cache_table" where
  "getCachedData now cid cache =
     (case cache cid of
        Some cached \<Rightarrow>
          if now - timestamp cached < CACHE_DURATION then (Some (data cached), cache)
          else (None, cache)
      | None \<Rightarrow> (None, cache))"

definition setCachedData :: "int \<Rightarrow> string \<Rightarrow> price_record \<Rightarrow> cache_table \<Rightarrow> cache_table" where
  "setCachedData now cid d cache = cache(cid \<mapsto> \<lparr>data = d, timestamp = now\<rparr>)"

subsection \<open>The upstream provider\<close>

text \<open>
  What the code inspects of a rejected \<open>axios.get\<close> or of any other exception:
  \<open>error.response.status\<close> (absent when there is no \<open>error.response\<close>),
  \<open>error.code\<close> and \<open>error.message\<close>.
\<close>

record js_error =
  response_status :: "nat option"
  code :: "string option"
  message :: string

text \<open>\<open>new Error(msg)\<close> has a message, no response and no code.\<close>

definition Error :: "string \<Rightarrow> js_error" where
  "Error msg = \<lparr>response_status = None, code = None, message = msg\<rparr>"

text \<open>
  The members of a parsed JSON object: of a repeated name \<open>JSON.parse\<close> keeps the
  last occurrence.
\<close>

definition own :: "(string \<times> json) list \<Rightarrow> string \<Rightarrow> json option" where
  "own members k = map_of (rev members) k"

text \<open>The names every object inherits from \<open>Object.prototype\<close>.\<close>

definition Object_prototype :: "string list" where
  "Object_prototype =
     [''constructor'', ''__defineGetter__'', ''__defineSetter__'', ''hasOwnProperty'',
      ''__lookupGetter__'', ''__lookupSetter__'', ''isPrototypeOf'',
      ''propertyIsEnumerable'', ''toString'', ''valueOf'', ''__proto__'',
      ''toLocaleString'']"

text \<open>What \<open>if (v)\<close> takes for true.\<close>

fun truthy :: "js_value \<Rightarrow> bool" where
  "truthy Undefined = False"
| "truthy Builtin = True"
| "truthy (Json JNull) = False"
| "truthy (Json (JBool b)) = b"
| "truthy (Json (JNum x)) = (x \<noteq> 0)"
| "truthy (Json (JStr s)) = (s \<noteq> [])"
| "truthy (Json (JArr xs)) = True"
| "truthy (Json (JObj members)) = True"

text \<open>
  The \<open>data\<close> of a 200 answer to the price call, as axios hands it over: an object
  with its members (the provider's \<open>{id: {usd: number}}\<close>); \<open>null\<close>; or anything
  else (a string, which is also what a body that is not JSON becomes, a number, a
  boolean, an array), given by what \<open>data[id]\<close> yields on it for each name, which
  the value and the runtime's tables for its kind determine.
\<close>

datatype price_data =
    Object "(string \<times> json) list"
  | Null
  | Other "string \<Rightarrow> js_value"

text \<open>
  \<open>priceResponse.data[id]\<close>: on an object a member it has, else one it inherits;
  on \<open>null\<close> a \<open>TypeError\<close> is thrown.
\<close>

definition TypeError_null :: "string \<Rightarrow> js_error" where
  "TypeError_null k =
     Error (''Cannot read properties of null (reading '' @ [CHR 0x27] @ k @ [CHR 0x27] @ '')'')"

fun member :: "price_data \<Rightarrow> string \<Rightarrow> js_error + js_value" where
  "member (Object members) k =
     Inr (case own members k of
            Some v \<Rightarrow> Json v
          | None \<Rightarrow> if k \<in> set Object_prototype then Builtin else Undefined)"
| "member Null k = Inl (TypeError_null k)"
| "member (Other lookup) k = Inr (lookup k)"

text \<open>
  \<open>v.usd\<close> for a truthy \<open>v\<close>: a member of an object that has it; no other value
  has or inherits a member of that name.
\<close>

fun usd_of :: "js_value \<Rightarrow> json option" where
  "usd_of (Json (JObj members)) = own members ''usd''"
| "usd_of v = None"

text \<open>
  The provider's two endpoints: \<open>/simple/price\<close>, and \<open>/coins/{id}\<close>, which
  answers with \<open>{name, symbol}\<close>, two strings. Either call can be rejected with an
  error; an answer to the info call without a \<open>symbol\<close> makes
  \<open>symbol.toUpperCase()\<close> throw where the call was awaited, and counts among the
  errors of that call. Identifiers and symbols are ASCII strings. The pauses between the
  calls (\<open>setTimeout\<close>) only let time pass and have no counterpart here.
\<close>

datatype coin_data = CoinData (coin_name: string) (coin_symbol: string)

record upstream =
  simple_price :: "string \<Rightarrow> js_error + price_data"
  coin_info :: "string \<Rightarrow> js_error + coin_data"

text \<open>The outbound requests a fetch issues, in the order it issues them.\<close>

datatype upstream_call = SimplePrice string | CoinInfo string

definition toUpperCase :: "string \<Rightarrow> string" where
  "toUpperCase s =
     map (\<lambda>c. if 97 \<le> (of_char c :: nat) \<and> (of_char c :: nat) \<le> 122
              then char_of ((of_char c :: nat) - 32) else c) s"

fun join :: "string list \<Rightarrow> string \<Rightarrow> string" where
  "join [] sep = []"
| "join [x] sep = x"
| "join (x # y # ys) sep = x @ sep @ join (y # ys) sep"

subsection \<open>Fetching one identifier\<close>

text \<open>The \<open>try\<close> block of \<open>getCryptocurrencyData\<close>: the price call, then the info call.\<close>

definition getCryptocurrencyData_try ::
    "upstream \<Rightarrow> string \<Rightarrow> (js_error + price_record) \<times> upstream_call list" where
  "getCryptocurrencyData_try up cid =
     (case simple_price up cid of
        Inl error \<Rightarrow> (Inl error, [SimplePrice cid])
      | Inr priceData \<Rightarrow>
          (case member priceData cid of
             Inl error \<Rightarrow> (Inl error, [SimplePrice cid])
           | Inr entry \<Rightarrow>
               if \<not> truthy entry
               then (Inl (Error ''Cryptocurrency not found''), [SimplePrice cid])
               else
                 (case coin_info up cid of
                    Inl error \<Rightarrow> (Inl error, [SimplePrice cid, CoinInfo cid])
                  | Inr info \<Rightarrow>
                      (Inr \<lparr>name = coin_name info,
                            symbol = toUpperCase (coin_symbol info),
                            price = usd_of entry\<rparr>,
                       [SimplePrice cid, CoinInfo cid]))))"

text \<open>Its \<open>catch\<close> block: the error thrown in place of the one caught.\<close>

definition getCryptocurrencyData_catch :: "js_error \<Rightarrow> js_error" where
  "getCryptocurrencyData_catch error =
     (if response_status error = Some 404 then Error ''Cryptocurrency not found''
      else if response_status error = Some 429
        then Error ''Rate limit exceeded. Please try again later.''
      else if code error = Some ''ECONNABORTED'' then Error ''Request timeout''
      else error)"

definition getCryptocurrencyData ::
    "upstream \<Rightarrow> string \<Rightarrow> (js_error + price_record) \<times> upstream_call list" where
  "getCryptocurrencyData up cid =
     (case getCryptocurrencyData_try up cid of
        (Inr r, calls) \<Rightarrow> (Inr r, calls)
      | (Inl error, calls) \<Rightarrow> (Inl (getCryptocurrencyData_catch error), calls))"

subsection \<open>Fetching many identifiers\<close>

text \<open>
  A JavaScript object built member by member is an association list in insertion order:
  defining a member it has replaces the value in place, defining a new one appends.
  (JavaScript lists names that are array indices first; the statements below speak of
  the members of an object, not of their order.)
\<close>

type_synonym price_object = "(string \<times> price_record) list"

fun put :: "string \<Rightarrow> price_record \<Rightarrow> price_object \<Rightarrow> price_object" where
  "put k v [] = [(k, v)]"
| "put k v ((k', v') # kvs) = (if k = k' then (k, v) # kvs else (k', v') # put k v kvs)"

text \<open>
  \<open>obj[k] = v\<close> for an object \<open>v\<close>: under the name \<open>__proto__\<close> it replaces the
  prototype of \<open>obj\<close> and gives it no member; under any other name it defines the member.
\<close>

definition assign :: "string \<Rightarrow> price_record \<Rightarrow> price_object \<Rightarrow> price_object" where
  "assign k v obj = (if k = ''__proto__'' then obj else put k v obj)"

datatype info_result = InfoResult (info_id: string) (info_name: string) (info_symbol: string)

text \<open>One element of \<open>infoPromises\<close>: the info call with its own \<open>catch\<close>.\<close>

definition fetch_info :: "upstream \<Rightarrow> string \<Rightarrow> info_result" where
  "fetch_info up cid =
     (case coin_info up cid of
        Inr info \<Rightarrow> InfoResult cid (coin_name info) (toUpperCase (coin_symbol info))
      | Inl error \<Rightarrow> InfoResult cid cid (toUpperCase cid))"

text \<open>
  One round of \<open>infoResults.forEach\<close>; an exception ends the loop and every later
  round passes it on.
\<close>

definition combine ::
    "price_data \<Rightarrow> info_result \<Rightarrow> js_error + price_object \<Rightarrow> js_error + price_object" where
  "combine priceData info acc =
     (case acc of
        Inl error \<Rightarrow> Inl error
      | Inr result \<Rightarrow>
          (case member priceData (info_id info) of
             Inl error \<Rightarrow> Inl error
           | Inr entry \<Rightarrow>
               Inr (if truthy entry
                    then assign (info_id info)
                           \<lparr>name = info_name info, symbol = info_symbol info,
                            price = usd_of entry\<rparr> result
                    else result)))"

text \<open>The outer \<open>catch\<close> of \<open>getMultipleCryptocurrencyData\<close> rethrows what it caught.\<close>

definition getMultipleCryptocurrencyData ::
    "upstream \<Rightarrow> string list \<Rightarrow> (js_error + price_object) \<times> upstream_call list" where
  "getMultipleCryptocurrencyData up ids =
     (let idsString = join ids '','' in
      case simple_price up idsString of
        Inl error \<Rightarrow> (Inl error, [SimplePrice idsString])
      | Inr priceData \<Rightarrow>
          (let infoResults = map (fetch_info up) ids;
               result = fold (combine priceData) infoResults (Inr [])
           in (result, SimplePrice idsString # map CoinInfo ids)))"

subsection \<open>Requests and responses\<close>

record server_state =
  cache :: cache_table
  rateLimiter :: rate_table

text \<open>
  A response: its status and its JSON body, which is a price record, an object of price
  records keyed by identifier, or an error object \<open>{error, message}\<close>.
\<close>

datatype body =
    PriceBody price_record
  | PricesBody price_object
  | ErrorBody (error_tag: string) (error_message: string)

datatype response = Response (status: nat) (body: body)

definition rate_limit_response :: response where
  "rate_limit_response =
     Response 429 (ErrorBody ''Rate limit exceeded'' ''Too many requests. Please try again later.'')"

definition internal_error_response :: response where
  "internal_error_response =
     Response 500 (ErrorBody ''Internal server error'' ''Failed to fetch cryptocurrency data'')"

subsection \<open>\<open>GET /price/:id\<close>\<close>

text \<open>The \<open>catch\<close> block of the handler: the response chosen from \<open>error.message\<close>.\<close>

definition price_error_response :: "js_error \<Rightarrow> response" where
  "price_error_response error =
     (if message error = ''Cryptocurrency not found''
      then Response 404 (ErrorBody ''Cryptocurrency not found''
                           ''The specified cryptocurrency ID does not exist'')
      else if message error = ''Rate limit exceeded. Please try again later.''
      then Response 429 (ErrorBody ''Rate limit exceeded''
                           ''API rate limit exceeded. Please try again later.'')
      else if message error = ''Request timeout''
      then Response 408 (ErrorBody ''Request timeout'' ''Request took too long to complete'')
      else internal_error_response)"

text \<open>
  The handler runs up to the cache lookup without suspending, at clock reading \<open>now\<close>;
  what it fetched it stores when the fetch has returned, at clock reading \<open>later\<close>. It
  yields the response, the tables it leaves behind and the outbound requests it issued.
\<close>

definition price_handler ::
    "upstream \<Rightarrow> int \<Rightarrow> int \<Rightarrow> string \<Rightarrow> string \<Rightarrow> server_state
       \<Rightarrow> response \<times> server_state \<times> upstream_call list" where
  "price_handler up now later clientIp cid st =
     (case checkRateLimit now clientIp (rateLimiter st) of
        (False, rl) \<Rightarrow> (rate_limit_response, st\<lparr>rateLimiter := rl\<rparr>, [])
      | (True, rl) \<Rightarrow>
          (case getCachedData now cid (cache st) of
             (Some cachedData, c) \<Rightarrow>
               (Response 200 (PriceBody cachedData), \<lparr>cache = c, rateLimiter = rl\<rparr>, [])
           | (None, c) \<Rightarrow>
               (case getCryptocurrencyData up cid of
                  (Inr d, calls) \<Rightarrow>
                    (Response 200 (PriceBody d),
                     \<lparr>cache = setCachedData later cid d c, rateLimiter = rl\<rparr>, calls)
                | (Inl error, calls) \<Rightarrow>
                    (price_error_response error, \<lparr>cache = c, rateLimiter = rl\<rparr>, calls))))"

subsection \<open>\<open>GET /prices/:ids\<close>\<close>

text \<open>\<open>ids.split(',')\<close> and \<open>id.trim()\<close>, on ASCII strings.\<close>

fun split :: "string \<Rightarrow> char \<Rightarrow> string list" where
  "split [] sep = [[]]"
| "split (c # cs) sep =
     (if c = sep then [] # split cs sep
      else (case split cs sep of [] \<Rightarrow> [[c]] | w # ws \<Rightarrow> (c # w) # ws))"

definition is_space :: "char \<Rightarrow> bool" where
  "is_space c \<longleftrightarrow> (of_char c :: nat) \<in> {9, 10, 11, 12, 13, 32}"

definition trim :: "string \<Rightarrow> string" where
  "trim s = rev (dropWhile is_space (rev (dropWhile is_space s)))"

text \<open>
  One round of \<open>coinIds.forEach\<close>: a cached record goes into \<open>cachedResults\<close>, an
  identifier without one is pushed onto \<open>missingIds\<close>.
\<close>

definition partition_step ::
    "int \<Rightarrow> string \<Rightarrow> (price_object \<times> string list) \<times> cache_table
       \<Rightarrow> (price_object \<times> string list) \<times> cache_table" where
  "partition_step now cid acc =
     (case acc of ((cachedResults, missingIds), c) \<Rightarrow>
        (case getCachedData now cid c of
           (Some cached, c') \<Rightarrow> ((assign cid cached cachedResults, missingIds), c')
         | (None, c') \<Rightarrow> ((cachedResults, missingIds @ [cid]), c')))"

text \<open>\<open>{...a, ...b}\<close>: the members of \<open>a\<close>, then those of \<open>b\<close>, defined on a new object.\<close>

definition spread :: "price_object \<Rightarrow> price_object \<Rightarrow> price_object" where
  "spread a b = fold (\<lambda>(k, v). put k v) (a @ b) []"

definition prices_handler ::
    "upstream \<Rightarrow> int \<Rightarrow> int \<Rightarrow> string \<Rightarrow> string \<Rightarrow> server_state
       \<Rightarrow> response \<times> server_state \<times> upstream_call list" where
  "prices_handler up now later clientIp ids st =
     (case checkRateLimit now clientIp (rateLimiter st) of
        (False, rl) \<Rightarrow> (rate_limit_response, st\<lparr>rateLimiter := rl\<rparr>, [])
      | (True, rl) \<Rightarrow>
          (let coinIds = map trim (split ids CHR '','') in
           case fold (partition_step now) coinIds (([], []), cache st) of
             ((cachedResults, missingIds), c) \<Rightarrow>
               if length missingIds > 0 then
                 (case getMultipleCryptocurrencyData up missingIds of
                    (Inr freshResults, calls) \<Rightarrow>
                      (Response 200 (PricesBody (spread cachedResults freshResults)),
                       \<lparr>cache = fold (\<lambda>(k, d). setCachedData later k d) freshResults c,
                        rateLimiter = rl\<rparr>,
                       calls)
                  | (Inl error, calls) \<Rightarrow>
                      (internal_error_response, \<lparr>cache = c, rateLimiter = rl\<rparr>, calls))
               else
                 (Response 200 (PricesBody (spread cachedResults [])),
                  \<lparr>cache = c, rateLimiter = rl\<rparr>, [])))"

subsection \<open>Serving requests one after another\<close>

text \<open>
  A request: its endpoint and parameter, the address it comes from, the clock readings
  at its arrival and when its fetch has returned, and the provider as it behaves
  meanwhile. A handler consults the limiter on arrival, before it first suspends, so
  requests reach the limiter in their order of arrival.
\<close>

datatype endpoint = Price string | Prices string

record request =
  endpoint :: endpoint
  clientIp :: string
  arrival :: int
  completion :: int
  provider :: upstream

definition serve :: "request \<Rightarrow> server_state \<Rightarrow> response \<times> server_state" where
  "serve req st =
     (case endpoint req of
        Price cid \<Rightarrow>
          (case price_handler (provider req) (arrival req) (completion req) (clientIp req) cid st of
             (res, st', calls) \<Rightarrow> (res, st'))
      | Prices ids \<Rightarrow>
          (case prices_handler (provider req) (arrival req) (completion req) (clientIp req) ids st of
             (res, st', calls) \<Rightarrow> (res, st')))"

text \<open>
  The arrival times of the requests of client \<open>ip\<close> that the limiter let through, when
  the requests are served in order from state \<open>st\<close>.
\<close>

fun admitted_times :: "string \<Rightarrow> request list \<Rightarrow> server_state \<Rightarrow> int list" where
  "admitted_times ip [] st = []"
| "admitted_times ip (req # reqs) st =
     (case serve req st of
        (res, st') \<Rightarrow>
          (if clientIp req = ip \<and> res \<noteq> rate_limit_response then [arrival req] else [])
          @ admitted_times ip reqs st')"

text \<open>
  How many of the timestamps \<open>ts\<close> lie in the window of length
  \<open>RATE_LIMIT_WINDOW\<close> that ends at \<open>T\<close>, and how many lie after \<open>b\<close>.
\<close>

definition count_within :: "int \<Rightarrow> int list \<Rightarrow> nat" where
  "count_within T ts = length (filter (\<lambda>t. T - RATE_LIMIT_WINDOW < t \<and> t \<le> T) ts)"

definition count_after :: "int \<Rightarrow> int list \<Rightarrow> nat" where
  "count_after b ts = length (filter (\<lambda>t. b < t) ts)"

subsection \<open>Vocabulary of the statements\<close>

text \<open>An identifier is missing when the cache has no fresh entry for it.\<close>

definition is_missing :: "int \<Rightarrow> cache_table \<Rightarrow> string \<Rightarrow> bool" where
  "is_missing now c cid \<longleftrightarrow> fst (getCachedData now cid c) = None"





text \<open>The other error responses of \<open>GET /price/:id\<close>.\<close>

definition not_found_response :: response where
  "not_found_response =
     Response 404 (ErrorBody ''Cryptocurrency not found''
                     ''The specified cryptocurrency ID does not exist'')"

definition api_rate_limit_response :: response where
  "api_rate_limit_response =
     Response 429 (ErrorBody ''Rate limit exceeded''
                     ''API rate limit exceeded. Please try again later.'')"

definition timeout_response :: response where
  "timeout_response =
     Response 408 (ErrorBody ''Request timeout'' ''Request took too long to complete'')"

text \<open>The tables of a server that has just started.\<close>

definition initial_state :: server_state where
  "initial_state = \<lparr>cache = Map.empty, rateLimiter = Map.empty\<rparr>"

text \<open>
  A provider for the examples: it holds a price for \<open>bitcoin\<close>, \<open>ethereum\<close> and
  \<open>freecoin\<close> and answers the price call with the entries of the identifiers asked
  for; it answers the info call for \<open>bitcoin\<close> and \<open>freecoin\<close>, and fails the info
  call for anything else with status 500.
\<close>

definition demo_prices :: "(string \<times> json) list" where
  "demo_prices =
     [(''bitcoin'', JObj [(''usd'', JNum 45000)]),
      (''ethereum'', JObj [(''usd'', JNum 2800)]),
      (''freecoin'', JObj [(''usd'', JNum 0)])]"

definition demo_provider :: upstream where
  "demo_provider =
     \<lparr>simple_price =
        (\<lambda>ids. Inr (Object (filter (\<lambda>(k, v). k \<in> set (split ids CHR '','')) demo_prices))),
      coin_info = (\<lambda>cid. if cid = ''bitcoin'' then Inr (CoinData ''Bitcoin'' ''btc'')
                          else if cid = ''freecoin'' then Inr (CoinData ''Freecoin'' ''free'')
                          else Inl \<lparr>response_status = Some 500, code = None,
                                   message = ''Request failed with status code 500''\<rparr>)\<rparr>"

definition demo_requests :: "request list" where
  "demo_requests =
     [\<lparr>endpoint = Price ''bitcoin'', clientIp = ''10.0.0.1'', arrival = 1000,
       completion = 1300, provider = demo_provider\<rparr>,
      \<lparr>endpoint = Prices ''bitcoin,ethereum'', clientIp = ''10.0.0.1'', arrival = 2000,
       completion = 2400, provider = demo_provider\<rparr>]"

text \<open>
  Errors as axios reports them: a 404 and a 429 from the provider, a timeout, a refused
  connection. A provider that rejects every call with a given error.
\<close>

definition upstream_404 :: js_error where
  "upstream_404 = \<lparr>response_status = Some 404, code = Some ''ERR_BAD_REQUEST'',
                    message = ''Request failed with status code 404''\<rparr>"

definition upstream_429 :: js_error where
  "upstream_429 = \<lparr>response_status = Some 429, code = Some ''ERR_BAD_REQUEST'',
                    message = ''Request failed with status code 429''\<rparr>"

definition upstream_timeout :: js_error where
  "upstream_timeout = \<lparr>response_status = None, code = Some ''ECONNABORTED'',
                        message = ''timeout of 10000ms exceeded''\<rparr>"


definition failing_provider :: "js_error \<Rightarrow> upstream" where
  "failing_provider e = \<lparr>simple_price = (\<lambda>ids. Inl e), coin_info = (\<lambda>cid. Inl e)\<rparr>"

text \<open>Tables in which one client has used up its window.\<close>

definition full_state :: server_state where
  "full_state = \<lparr>cache = Map.empty, rateLimiter = [''10.0.0.1'' \<mapsto> replicate 50 500]\<rparr>"

text \<open>
  The records the example provider yields, and the tables after the first example request.
\<close>

definition demo_bitcoin :: price_record where
  "demo_bitcoin = \<lparr>name = ''Bitcoin'', symbol = ''BTC'', price = Some (JNum 45000)\<rparr>"

definition demo_ethereum :: price_record where
  "demo_ethereum = \<lparr>name = ''ethereum'', symbol = ''ETHEREUM'', price = Some (JNum 2800)\<rparr>"

definition demo_freecoin :: price_record where
  "demo_freecoin = \<lparr>name = ''Freecoin'', symbol = ''FREE'', price = Some (JNum 0)\<rparr>"

definition demo_state :: server_state where
  "demo_state =
     \<lparr>cache = [''bitcoin'' \<mapsto> \<lparr>data = demo_bitcoin, timestamp = 1300\<rparr>],
      rateLimiter = [''10.0.0.1'' \<mapsto> [1000]]\<rparr>"

text \<open>
  A provider that holds no price for the identifier asked for and does not know it:
  the price call answers \<open>{}\<close>, the info call answers 404.
\<close>

definition unknown_provider :: upstream where
  "unknown_provider =
     \<lparr>simple_price = (\<lambda>ids. Inr (Object [])), coin_info = (\<lambda>cid. Inl upstream_404)\<rparr>"




text \<open>
  A string as \<open>data\<close>: its characters under the decimal indices, its length, and the
  members strings inherit (the names of \<open>String.prototype\<close> as Node 18 has them).
\<close>

fun decimal :: "nat \<Rightarrow> string" where
  "decimal n =
     (if n < 10 then [char_of (48 + n)] else decimal (n div 10) @ [char_of (48 + n mod 10)])"

definition String_prototype :: "string list" where
  "String_prototype =
     [''length'', ''constructor'', ''anchor'', ''at'', ''big'', ''blink'', ''bold'',
      ''charAt'', ''charCodeAt'', ''codePointAt'', ''concat'', ''endsWith'', ''fontcolor'',
      ''fontsize'', ''fixed'', ''includes'', ''indexOf'', ''italics'', ''lastIndexOf'',
      ''link'', ''localeCompare'', ''match'', ''matchAll'', ''normalize'', ''padEnd'',
      ''padStart'', ''repeat'', ''replace'', ''replaceAll'', ''search'', ''slice'',
      ''small'', ''split'', ''strike'', ''sub'', ''substr'', ''substring'', ''sup'',
      ''startsWith'', ''toString'', ''trim'', ''trimStart'', ''trimLeft'', ''trimEnd'',
      ''trimRight'', ''toLocaleLowerCase'', ''toLocaleUpperCase'', ''toLowerCase'',
      ''toUpperCase'', ''valueOf'']"

definition text_data :: "string \<Rightarrow> price_data" where
  "text_data s =
     Other (\<lambda>k. case map_of (zip (map decimal [0..<length s]) s) k of
                  Some c \<Rightarrow> Json (JStr [c])
                | None \<Rightarrow>
                    if k = ''length'' then Json (JNum (real (length s)))
                    else if k \<in> set (String_prototype @ Object_prototype) then Builtin
                    else Undefined)"

text \<open>A provider whose price call answers 200 with a body that is not JSON.\<close>

definition invalid_json_provider :: upstream where
  "invalid_json_provider =
     \<lparr>simple_price = (\<lambda>ids. Inr (text_data ''invalid json'')),
      coin_info = (\<lambda>cid. Inl upstream_404)\<rparr>"

text \<open>An error that is no timeout of axios and bears the text of one.\<close>

definition marker_error :: js_error where
  "marker_error = \<lparr>response_status = None, code = None, message = ''Request timeout''\<rparr>"

section \<open>Properties of the rate limiter\<close>

lemma checkRateLimit_admit:
  assumes "length (recent now (window_of rl ip)) < MAX_REQUESTS_PER_MINUTE"
  shows "checkRateLimit now ip rl = (True, rl(ip \<mapsto> recent now (window_of rl ip) @ [now]))"
  using assms
  by (cases "rl ip") (simp_all add: checkRateLimit_def window_of_def recent_def Let_def)

lemma checkRateLimit_reject:
  assumes "\<not> length (recent now (window_of rl ip)) < MAX_REQUESTS_PER_MINUTE"
  shows "checkRateLimit now ip rl = (False, rl)"
proof (cases "rl ip")
  case None
  with assms show ?thesis
    by (simp add: window_of_def recent_def MAX_REQUESTS_PER_MINUTE_def)
next
  case (Some r)
  with assms show ?thesis
    by (simp add: checkRateLimit_def window_of_def recent_def Let_def)
qed

lemma checkRateLimit_cases:
  "checkRateLimit now ip rl =
     (if length (recent now (window_of rl ip)) < MAX_REQUESTS_PER_MINUTE
      then (True, rl(ip \<mapsto> recent now (window_of rl ip) @ [now]))
      else (False, rl))"
  by (simp add: checkRateLimit_admit checkRateLimit_reject)




text \<open>
  C7. After an admission the window stored for the client holds at most
  \<open>MAX_REQUESTS_PER_MINUTE\<close> timestamps, each of them later than
  \<open>now - RATE_LIMIT_WINDOW\<close>; and a check is rejected whenever the timestamps inside
  the window, with the new one added, would be more than \<open>MAX_REQUESTS_PER_MINUTE\<close>.
\<close>

theorem checkRateLimit_window_bounded:
  "(fst (checkRateLimit now ip rl) \<longrightarrow>
      (\<exists>ts. snd (checkRateLimit now ip rl) ip = Some ts
            \<and> length ts \<le> MAX_REQUESTS_PER_MINUTE
            \<and> (\<forall>t \<in> set ts. now - RATE_LIMIT_WINDOW < t)))
   \<and> (MAX_REQUESTS_PER_MINUTE
         < length (filter (\<lambda>t. now - RATE_LIMIT_WINDOW < t) (window_of rl ip)) + 1
        \<longrightarrow> \<not> fst (checkRateLimit now ip rl))"
  by (auto simp: checkRateLimit_cases recent_def RATE_LIMIT_WINDOW_def)

theorem checkRateLimit_window_bounded_witness:
  "fst (checkRateLimit 1000 ''10.0.0.1'' Map.empty)
   \<and> snd (checkRateLimit 1000 ''10.0.0.1'' Map.empty) ''10.0.0.1'' = Some [1000]
   \<and> length [1000 :: int] \<le> MAX_REQUESTS_PER_MINUTE
   \<and> 1000 - RATE_LIMIT_WINDOW < 1000
   \<and> MAX_REQUESTS_PER_MINUTE
        < length (filter (\<lambda>t. 1000 - RATE_LIMIT_WINDOW < t)
            (window_of (Map.empty(''10.0.0.1'' \<mapsto> replicate 50 500)) ''10.0.0.1'')) + 1
   \<and> \<not> fst (checkRateLimit 1000 ''10.0.0.1'' (Map.empty(''10.0.0.1'' \<mapsto> replicate 50 500)))"
  using checkRateLimit_window_bounded [of 1000 "''10.0.0.1''" Map.empty]
    checkRateLimit_window_bounded
      [of 1000 "''10.0.0.1''" "Map.empty(''10.0.0.1'' \<mapsto> replicate 50 500)"]
  by (simp add: checkRateLimit_cases recent_def window_of_def RATE_LIMIT_WINDOW_def
      MAX_REQUESTS_PER_MINUTE_def)

text \<open>
  C9. A rejected check leaves the limiter's table exactly as it was: the pruned array
  is not stored and no timestamp is appended.
\<close>

theorem checkRateLimit_reject_unchanged:
  assumes "\<not> fst (checkRateLimit now ip rl)"
  shows "snd (checkRateLimit now ip rl) = rl"
  using assms by (simp add: checkRateLimit_cases split: if_splits)

theorem checkRateLimit_reject_unchanged_witness:
  "\<not> fst (checkRateLimit 1000 ''10.0.0.1'' (Map.empty(''10.0.0.1'' \<mapsto> replicate 50 500)))
   \<and> snd (checkRateLimit 1000 ''10.0.0.1'' (Map.empty(''10.0.0.1'' \<mapsto> replicate 50 500)))
       = Map.empty(''10.0.0.1'' \<mapsto> replicate 50 500)"
proof -
  have rejected:
    "\<not> fst (checkRateLimit 1000 ''10.0.0.1'' (Map.empty(''10.0.0.1'' \<mapsto> replicate 50 500)))"
    by (simp add: checkRateLimit_def RATE_LIMIT_WINDOW_def MAX_REQUESTS_PER_MINUTE_def)
  from rejected checkRateLimit_reject_unchanged [OF rejected] show ?thesis
    by simp
qed

section \<open>Properties of the cache\<close>

text \<open>
  C3. A lookup at time \<open>now\<close> returns the stored record exactly when the table has an
  entry for the key and \<open>now - timestamp < CACHE_DURATION\<close>, five minutes; a stale or
  missing entry yields nothing. The lookup leaves the table as it found it: a stale
  entry stays where it is.
\<close>

theorem getCachedData_fresh_only:
  "(fst (getCachedData now cid c) = Some r
      \<longleftrightarrow> (\<exists>e. c cid = Some e \<and> now - timestamp e < CACHE_DURATION \<and> data e = r))
   \<and> (fst (getCachedData now cid c) = None
      \<longleftrightarrow> (c cid = None \<or> (\<exists>e. c cid = Some e \<and> \<not> now - timestamp e < CACHE_DURATION)))
   \<and> snd (getCachedData now cid c) = c
   \<and> CACHE_DURATION = 300000"
  by (auto simp: getCachedData_def CACHE_DURATION_def split: option.splits)


section \<open>Objects, the partition and the bulk fetch\<close>

lemma getCachedData_snd: "snd (getCachedData now cid c) = c"
  by (simp add: getCachedData_def split: option.splits)

lemma map_of_put: "map_of (put k v kvs) = (map_of kvs)(k \<mapsto> v)"
  by (induction kvs) (auto simp: fun_eq_iff)

lemma keys_put: "fst ` set (put k v kvs) = insert k (fst ` set kvs)"
proof -
  have "dom (map_of (put k v kvs)) = insert k (dom (map_of kvs))"
    by (simp add: map_of_put)
  then show ?thesis
    by (simp only: dom_map_of_conv_image_fst)
qed

lemma distinct_put:
  "distinct (map fst kvs) \<Longrightarrow> distinct (map fst (put k v kvs))"
proof (induction kvs)
  case Nil
  then show ?case by simp
next
  case (Cons kv kvs)
  obtain k' v' where kv: "kv = (k', v')" by (cases kv)
  show ?case
  proof (cases "k = k'")
    case True
    with Cons.prems kv show ?thesis by simp
  next
    case False
    have "k' \<notin> fst ` set (put k v kvs)"
      using Cons.prems kv False by (simp add: keys_put)
    with Cons kv False show ?thesis by simp
  qed
qed

lemma map_of_assign:
  "map_of (assign k v obj) = (if k = ''__proto__'' then map_of obj else (map_of obj)(k \<mapsto> v))"
  by (simp add: assign_def map_of_put)

lemma distinct_assign:
  "distinct (map fst obj) \<Longrightarrow> distinct (map fst (assign k v obj))"
  by (simp add: assign_def distinct_put)






lemma fold_combine:
  assumes "distinct (map fst acc)" and "\<forall>k. member pd k = Inr (look k)"
  shows "\<exists>result. fold (combine pd) (map (fetch_info up) ids) (Inr acc) = Inr result
       \<and> distinct (map fst result)
       \<and> map_of result =
           (\<lambda>cid. if cid \<in> set ids \<and> truthy (look cid) \<and> cid \<noteq> ''__proto__''
                   then Some \<lparr>name = info_name (fetch_info up cid),
                              symbol = info_symbol (fetch_info up cid),
                              price = usd_of (look cid)\<rparr>
                   else map_of acc cid)"
  using assms(1)
proof (induction ids arbitrary: acc)
  case Nil
  then show ?case by simp
next
  case (Cons cid ids)
  have id: "info_id (fetch_info up cid) = cid"
    by (simp add: fetch_info_def split: sum.splits)
  let ?r = "\<lparr>name = info_name (fetch_info up cid), symbol = info_symbol (fetch_info up cid),
             price = usd_of (look cid)\<rparr>"
  let ?acc' = "if truthy (look cid) then assign cid ?r acc else acc"
  have step: "combine pd (fetch_info up cid) (Inr acc) = Inr ?acc'"
    using assms(2) by (simp add: combine_def id)
  have "distinct (map fst ?acc')"
    using Cons.prems by (simp add: distinct_assign)
  from Cons.IH [OF this] obtain result where
    "fold (combine pd) (map (fetch_info up) ids) (Inr ?acc') = Inr result"
    "distinct (map fst result)"
    "map_of result =
       (\<lambda>k. if k \<in> set ids \<and> truthy (look k) \<and> k \<noteq> ''__proto__''
             then Some \<lparr>name = info_name (fetch_info up k), symbol = info_symbol (fetch_info up k),
                        price = usd_of (look k)\<rparr>
             else map_of ?acc' k)"
    by blast
  then show ?case
    using step by (auto simp: fun_eq_iff map_of_assign)
qed


lemma getMultipleCryptocurrencyData_cases:
  "getMultipleCryptocurrencyData up ids =
     (case simple_price up (join ids '','') of
        Inl error \<Rightarrow> (Inl error, [SimplePrice (join ids '','')])
      | Inr priceData \<Rightarrow>
          (fold (combine priceData) (map (fetch_info up) ids) (Inr []),
           SimplePrice (join ids '','') # map CoinInfo ids))"
  by (simp add: getMultipleCryptocurrencyData_def Let_def split: sum.splits)





section \<open>The limiter under a sequence of requests\<close>

lemma price_error_response_neq: "price_error_response e \<noteq> rate_limit_response"
  by (simp add: price_error_response_def rate_limit_response_def internal_error_response_def)

lemma price_handler_limiter:
  "rateLimiter (fst (snd (price_handler up now later ip cid st)))
     = snd (checkRateLimit now ip (rateLimiter st))"
  by (simp add: price_handler_def split: prod.splits bool.splits option.splits sum.splits)

lemma price_handler_admitted:
  "fst (price_handler up now later ip cid st) \<noteq> rate_limit_response
     \<longleftrightarrow> fst (checkRateLimit now ip (rateLimiter st))"
  by (auto simp: price_handler_def price_error_response_neq [unfolded rate_limit_response_def]
      rate_limit_response_def split: prod.splits bool.splits option.splits sum.splits)

lemma prices_handler_limiter:
  "rateLimiter (fst (snd (prices_handler up now later ip ids st)))
     = snd (checkRateLimit now ip (rateLimiter st))"
  by (simp add: prices_handler_def Let_def split: prod.splits bool.splits option.splits sum.splits)

lemma prices_handler_admitted:
  "fst (prices_handler up now later ip ids st) \<noteq> rate_limit_response
     \<longleftrightarrow> fst (checkRateLimit now ip (rateLimiter st))"
  by (auto simp: prices_handler_def Let_def rate_limit_response_def internal_error_response_def
      split: prod.splits bool.splits option.splits sum.splits)

lemma serve_limiter:
  "rateLimiter (snd (serve req st))
     = snd (checkRateLimit (arrival req) (clientIp req) (rateLimiter st))"
proof (cases "endpoint req")
  case (Price cid)
  then show ?thesis
    using price_handler_limiter [of "provider req" "arrival req" "completion req" "clientIp req" cid st]
    by (cases "price_handler (provider req) (arrival req) (completion req) (clientIp req) cid st")
      (simp add: serve_def)
next
  case (Prices ids)
  then show ?thesis
    using prices_handler_limiter [of "provider req" "arrival req" "completion req" "clientIp req" ids st]
    by (cases "prices_handler (provider req) (arrival req) (completion req) (clientIp req) ids st")
      (simp add: serve_def)
qed

lemma serve_admitted:
  "fst (serve req st) \<noteq> rate_limit_response
     \<longleftrightarrow> fst (checkRateLimit (arrival req) (clientIp req) (rateLimiter st))"
proof (cases "endpoint req")
  case (Price cid)
  then show ?thesis
    using price_handler_admitted [of "provider req" "arrival req" "completion req" "clientIp req" cid st]
    by (cases "price_handler (provider req) (arrival req) (completion req) (clientIp req) cid st")
      (simp add: serve_def)
next
  case (Prices ids)
  then show ?thesis
    using prices_handler_admitted [of "provider req" "arrival req" "completion req" "clientIp req" ids st]
    by (cases "prices_handler (provider req) (arrival req) (completion req) (clientIp req) ids st")
      (simp add: serve_def)
qed

lemma window_of_checkRateLimit:
  "window_of (snd (checkRateLimit n ip' rl)) ip =
     (if ip' = ip \<and> fst (checkRateLimit n ip' rl) then recent n (window_of rl ip) @ [n]
      else window_of rl ip)"
  by (simp add: checkRateLimit_cases window_of_def)

lemma fst_checkRateLimit:
  "fst (checkRateLimit n ip rl) \<longleftrightarrow> length (recent n (window_of rl ip)) < MAX_REQUESTS_PER_MINUTE"
  by (simp add: checkRateLimit_cases)

lemma count_after_recent:
  assumes "n - RATE_LIMIT_WINDOW \<le> b"
  shows "count_after b (recent n ts) = count_after b ts"
proof -
  have "filter (\<lambda>t. b < t) (recent n ts) = filter (\<lambda>t. b < t) ts"
    using assms by (auto simp: recent_def intro: filter_cong)
  then show ?thesis by (simp add: count_after_def)
qed

lemma count_after_mono:
  assumes "a \<le> b"
  shows "count_after b ts \<le> count_after a ts"
  using assms unfolding count_after_def
  by (induction ts) auto

lemma count_within_le_after: "count_within T ts \<le> count_after (T - RATE_LIMIT_WINDOW) ts"
  unfolding count_within_def count_after_def
  by (induction ts) auto

lemma count_within_past:
  assumes "\<forall>t \<in> set ts. t \<le> m" and "T < n" and "m \<le> n"
  shows "count_within T (ts @ [n]) = count_within T ts"
  using assms by (simp add: count_within_def)


lemma admitted_step:
  assumes inv: "\<forall>b\<ge>m - RATE_LIMIT_WINDOW. count_after b adm \<le> count_after b (window_of rl ip)"
    and bound: "\<forall>T. count_within T adm \<le> MAX_REQUESTS_PER_MINUTE"
    and past: "\<forall>t \<in> set adm. t \<le> m"
    and mn: "m \<le> n"
    and ok: "fst (checkRateLimit n ip rl)"
  shows "\<forall>b\<ge>n - RATE_LIMIT_WINDOW.
           count_after b (adm @ [n]) \<le> count_after b (recent n (window_of rl ip) @ [n])"
    and "\<forall>T. count_within T (adm @ [n]) \<le> MAX_REQUESTS_PER_MINUTE"
    and "\<forall>t \<in> set (adm @ [n]). t \<le> n"
proof -
  show "\<forall>b\<ge>n - RATE_LIMIT_WINDOW.
           count_after b (adm @ [n]) \<le> count_after b (recent n (window_of rl ip) @ [n])"
  proof (intro allI impI)
    fix b assume b: "n - RATE_LIMIT_WINDOW \<le> b"
    with mn have "m - RATE_LIMIT_WINDOW \<le> b" by simp
    with inv have "count_after b adm \<le> count_after b (window_of rl ip)" by simp
    moreover have "count_after b (recent n (window_of rl ip)) = count_after b (window_of rl ip)"
      using b by (rule count_after_recent)
    ultimately show "count_after b (adm @ [n]) \<le> count_after b (recent n (window_of rl ip) @ [n])"
      by (simp add: count_after_def)
  qed
next
  show "\<forall>T. count_within T (adm @ [n]) \<le> MAX_REQUESTS_PER_MINUTE"
  proof
    fix T
    show "count_within T (adm @ [n]) \<le> MAX_REQUESTS_PER_MINUTE"
    proof (cases "T < n")
      case True
      with past mn have "count_within T (adm @ [n]) = count_within T adm"
        by (simp add: count_within_past)
      with bound show ?thesis by simp
    next
      case False
      then have nT: "n - RATE_LIMIT_WINDOW \<le> T - RATE_LIMIT_WINDOW" by simp
      have "count_within T adm \<le> count_after (T - RATE_LIMIT_WINDOW) adm"
        by (rule count_within_le_after)
      also have "\<dots> \<le> count_after (T - RATE_LIMIT_WINDOW) (window_of rl ip)"
        using inv nT mn by simp
      also have "\<dots> \<le> count_after (n - RATE_LIMIT_WINDOW) (window_of rl ip)"
        using nT by (rule count_after_mono)
      also have "\<dots> = length (recent n (window_of rl ip))"
        by (simp add: count_after_def recent_def)
      finally have "count_within T adm < MAX_REQUESTS_PER_MINUTE"
        using ok by (simp add: fst_checkRateLimit)
      moreover have "count_within T (adm @ [n]) \<le> Suc (count_within T adm)"
        by (simp add: count_within_def)
      ultimately show ?thesis by simp
    qed
  qed
next
  show "\<forall>t \<in> set (adm @ [n]). t \<le> n"
    using past mn by auto
qed

lemma admitted_times_bounded:
  assumes "sorted (map arrival reqs)"
    and "\<forall>req \<in> set reqs. m \<le> arrival req"
    and "\<forall>b\<ge>m - RATE_LIMIT_WINDOW.
           count_after b adm \<le> count_after b (window_of (rateLimiter st) ip)"
    and "\<forall>T. count_within T adm \<le> MAX_REQUESTS_PER_MINUTE"
    and "\<forall>t \<in> set adm. t \<le> m"
  shows "count_within T (adm @ admitted_times ip reqs st) \<le> MAX_REQUESTS_PER_MINUTE"
  using assms
proof (induction reqs arbitrary: st adm m)
  case Nil
  then show ?case by simp
next
  case (Cons req reqs)
  obtain res st' where served: "serve req st = (res, st')"
    by (cases "serve req st")
  let ?n = "arrival req"
  let ?rl = "rateLimiter st"
  have mn: "m \<le> ?n" using Cons.prems(2) by simp
  have sorted': "sorted (map arrival reqs)" using Cons.prems(1) by simp
  have later': "\<forall>r \<in> set reqs. ?n \<le> arrival r" using Cons.prems(1) by simp
  have rl': "rateLimiter st' = snd (checkRateLimit ?n (clientIp req) ?rl)"
    using serve_limiter [of req st] served by simp
  have adm': "res \<noteq> rate_limit_response \<longleftrightarrow> fst (checkRateLimit ?n (clientIp req) ?rl)"
    using serve_admitted [of req st] served by simp
  show ?case
  proof (cases "clientIp req = ip \<and> res \<noteq> rate_limit_response")
    case True
    then have ok: "fst (checkRateLimit ?n ip ?rl)" using adm' by auto
    have win: "window_of (rateLimiter st') ip = recent ?n (window_of ?rl ip) @ [?n]"
      using True ok rl' by (simp add: window_of_checkRateLimit)
    note step = admitted_step [OF Cons.prems(3) Cons.prems(4) Cons.prems(5) mn ok]
    have "count_within T ((adm @ [?n]) @ admitted_times ip reqs st') \<le> MAX_REQUESTS_PER_MINUTE"
      using step win by (intro Cons.IH [OF sorted' later']) simp_all
    then show ?thesis using True served by simp
  next
    case False
    have win: "window_of (rateLimiter st') ip = window_of ?rl ip"
    proof (cases "clientIp req = ip")
      case True
      with False adm' have "\<not> fst (checkRateLimit ?n (clientIp req) ?rl)" by simp
      then show ?thesis using rl' by (simp add: window_of_checkRateLimit)
    next
      case False
      then show ?thesis using rl' by (simp add: window_of_checkRateLimit)
    qed
    have inv': "\<forall>b\<ge>?n - RATE_LIMIT_WINDOW.
             count_after b adm \<le> count_after b (window_of (rateLimiter st') ip)"
      using Cons.prems(3) mn win by simp
    have past': "\<forall>t \<in> set adm. t \<le> ?n"
      using Cons.prems(5) mn by auto
    have "count_within T (adm @ admitted_times ip reqs st') \<le> MAX_REQUESTS_PER_MINUTE"
      by (rule Cons.IH [OF sorted' later' inv' Cons.prems(4) past'])
    then show ?thesis using False served by auto
  qed
qed


subsection \<open>The example requests\<close>

lemma toUpperCase_btc: "toUpperCase ''btc'' = ''BTC''"
  by code_simp

lemma toUpperCase_ethereum: "toUpperCase ''ethereum'' = ''ETHEREUM''"
  by code_simp

lemma demo_price_handler:
  "price_handler demo_provider 1000 1300 ''10.0.0.1'' ''bitcoin'' initial_state =
     (Response 200 (PriceBody demo_bitcoin), demo_state,
      [SimplePrice ''bitcoin'', CoinInfo ''bitcoin''])"
  by (simp add: initial_state_def demo_state_def demo_bitcoin_def price_handler_def
      checkRateLimit_def getCachedData_def getCryptocurrencyData_def
      getCryptocurrencyData_try_def demo_provider_def demo_prices_def setCachedData_def
      own_def Object_prototype_def toUpperCase_btc RATE_LIMIT_WINDOW_def
      MAX_REQUESTS_PER_MINUTE_def)

lemma demo_prices_handler:
  "prices_handler demo_provider 2000 2400 ''10.0.0.1'' ''bitcoin,ethereum'' demo_state =
     (Response 200 (PricesBody [(''bitcoin'', demo_bitcoin), (''ethereum'', demo_ethereum)]),
      \<lparr>cache = [''bitcoin'' \<mapsto> \<lparr>data = demo_bitcoin, timestamp = 1300\<rparr>,
                ''ethereum'' \<mapsto> \<lparr>data = demo_ethereum, timestamp = 2400\<rparr>],
       rateLimiter = [''10.0.0.1'' \<mapsto> [1000, 2000]]\<rparr>,
      [SimplePrice ''ethereum'', CoinInfo ''ethereum''])"
  by (simp add: demo_state_def demo_bitcoin_def demo_ethereum_def prices_handler_def
      partition_step_def spread_def checkRateLimit_def getCachedData_def
      getMultipleCryptocurrencyData_def fetch_info_def combine_def demo_provider_def
      demo_prices_def setCachedData_def toUpperCase_ethereum trim_def is_space_def Let_def
      own_def Object_prototype_def assign_def RATE_LIMIT_WINDOW_def
      MAX_REQUESTS_PER_MINUTE_def CACHE_DURATION_def)

lemma demo_admitted_times:
  "admitted_times ''10.0.0.1'' demo_requests initial_state = [1000, 2000]"
  by (simp add: demo_requests_def serve_def demo_price_handler demo_prices_handler
      rate_limit_response_def)

text \<open>
  C10. Both handlers pass the client address to the one \<open>checkRateLimit\<close> over the
  one \<open>rateLimiter\<close> table, and a response differs from the limiter's rejection
  exactly when that check admitted the request. So, with clock readings that do not
  decrease from one arrival to the next, in any run of requests to either endpoint the
  arrivals of one client that were admitted within any window of
  \<open>RATE_LIMIT_WINDOW\<close> = 60000 ms number at most \<open>MAX_REQUESTS_PER_MINUTE\<close> = 50.
  An admitted bulk request leaves one more timestamp than the pruned window held,
  whatever identifiers it names.
\<close>

theorem shared_rate_window:
  "(sorted (map arrival reqs) \<longrightarrow>
      count_within T (admitted_times ip reqs st) \<le> MAX_REQUESTS_PER_MINUTE)
   \<and> rateLimiter (fst (snd (price_handler up now later ip cid st0)))
       = snd (checkRateLimit now ip (rateLimiter st0))
   \<and> rateLimiter (fst (snd (prices_handler up now later ip ids st0)))
       = snd (checkRateLimit now ip (rateLimiter st0))
   \<and> (fst (price_handler up now later ip cid st0) \<noteq> rate_limit_response
        \<longleftrightarrow> fst (checkRateLimit now ip (rateLimiter st0)))
   \<and> (fst (prices_handler up now later ip ids st0) \<noteq> rate_limit_response
        \<longleftrightarrow> fst (checkRateLimit now ip (rateLimiter st0)))
   \<and> (fst (checkRateLimit now ip (rateLimiter st0)) \<longrightarrow>
        window_of (rateLimiter (fst (snd (prices_handler up now later ip ids st0)))) ip
          = recent now (window_of (rateLimiter st0) ip) @ [now])
   \<and> MAX_REQUESTS_PER_MINUTE = 50 \<and> RATE_LIMIT_WINDOW = 60000"
proof (intro conjI impI)
  assume ordered: "sorted (map arrival reqs)"
  show "count_within T (admitted_times ip reqs st) \<le> MAX_REQUESTS_PER_MINUTE"
  proof (cases reqs)
    case Nil
    then show ?thesis by (simp add: count_within_def)
  next
    case (Cons req rest)
    have "count_within T ([] @ admitted_times ip reqs st) \<le> MAX_REQUESTS_PER_MINUTE"
    proof (rule admitted_times_bounded [OF ordered, where m = "arrival req"])
      show "\<forall>r \<in> set reqs. arrival req \<le> arrival r"
        using ordered Cons by auto
    qed (simp_all add: count_after_def count_within_def)
    then show ?thesis by simp
  qed
next
  assume "fst (checkRateLimit now ip (rateLimiter st0))"
  then show "window_of (rateLimiter (fst (snd (prices_handler up now later ip ids st0)))) ip
          = recent now (window_of (rateLimiter st0) ip) @ [now]"
    by (simp add: prices_handler_limiter window_of_checkRateLimit)
qed (simp_all add: price_handler_limiter prices_handler_limiter price_handler_admitted
    prices_handler_admitted MAX_REQUESTS_PER_MINUTE_def RATE_LIMIT_WINDOW_def)

theorem shared_rate_window_witness:
  "sorted (map arrival demo_requests)
   \<and> admitted_times ''10.0.0.1'' demo_requests initial_state = [1000, 2000]
   \<and> count_within 2000 (admitted_times ''10.0.0.1'' demo_requests initial_state)
        \<le> MAX_REQUESTS_PER_MINUTE
   \<and> fst (checkRateLimit 2000 ''10.0.0.1'' (rateLimiter demo_state))
   \<and> window_of (rateLimiter (fst (snd
        (prices_handler demo_provider 2000 2400 ''10.0.0.1'' ''bitcoin,ethereum'' demo_state))))
        ''10.0.0.1'' = [1000, 2000]"
proof -
  have ordered: "sorted (map arrival demo_requests)"
    by (simp add: demo_requests_def)
  have admitted: "fst (checkRateLimit 2000 ''10.0.0.1'' (rateLimiter demo_state))"
    by (simp add: checkRateLimit_def demo_state_def RATE_LIMIT_WINDOW_def
        MAX_REQUESTS_PER_MINUTE_def)
  have window:
    "window_of (rateLimiter (fst (snd
        (prices_handler demo_provider 2000 2400 ''10.0.0.1'' ''bitcoin,ethereum'' demo_state))))
        ''10.0.0.1'' = [1000, 2000]"
    by (simp add: demo_prices_handler window_of_def)
  have "sorted (map arrival demo_requests) \<longrightarrow>
      count_within 2000 (admitted_times ''10.0.0.1'' demo_requests initial_state)
        \<le> MAX_REQUESTS_PER_MINUTE"
    by (rule conjunct1, rule shared_rate_window [where reqs = demo_requests and T = 2000
      and ip = "''10.0.0.1''" and st = initial_state and up = demo_provider and now = 2000
      and later = 2400 and cid = "''bitcoin''" and ids = "''bitcoin,ethereum''"
      and ?st0.0 = demo_state])
  with ordered have "count_within 2000 (admitted_times ''10.0.0.1'' demo_requests initial_state)
        \<le> MAX_REQUESTS_PER_MINUTE"
    by simp
  with ordered admitted window show ?thesis
    by (simp add: demo_admitted_times)
qed

section \<open>The single request\<close>

lemma price_handler_reject:
  assumes "\<not> fst (checkRateLimit now ip (rateLimiter st))"
  shows "price_handler up now later ip cid st = (rate_limit_response, st, [])"
proof -
  from assms have "checkRateLimit now ip (rateLimiter st) = (False, rateLimiter st)"
    by (simp add: checkRateLimit_cases split: if_splits)
  then show ?thesis
    by (simp add: price_handler_def)
qed

lemma price_handler_miss:
  assumes "fst (checkRateLimit now ip (rateLimiter st))"
    and "is_missing now (cache st) cid"
  shows "price_handler up now later ip cid st =
     (case getCryptocurrencyData up cid of
        (Inr d, calls) \<Rightarrow>
          (Response 200 (PriceBody d),
           \<lparr>cache = setCachedData later cid d (cache st),
            rateLimiter = snd (checkRateLimit now ip (rateLimiter st))\<rparr>, calls)
      | (Inl error, calls) \<Rightarrow>
          (price_error_response error,
           \<lparr>cache = cache st, rateLimiter = snd (checkRateLimit now ip (rateLimiter st))\<rparr>,
           calls))"
  using assms getCachedData_snd [of now cid "cache st"]
  by (cases "checkRateLimit now ip (rateLimiter st)"; cases "getCachedData now cid (cache st)")
    (simp add: price_handler_def is_missing_def split: prod.splits sum.splits)

lemma getCryptocurrencyData_absent:
  assumes "simple_price up cid = Inr pd" and "member pd cid = Inr entry" and "\<not> truthy entry"
  shows "getCryptocurrencyData up cid = (Inl (Error ''Cryptocurrency not found''), [SimplePrice cid])"
  using assms
  by (simp add: getCryptocurrencyData_def getCryptocurrencyData_try_def
      getCryptocurrencyData_catch_def Error_def)

lemma getCryptocurrencyData_resolved:
  assumes "getCryptocurrencyData up cid = (Inr r, calls)"
  shows "\<exists>pd entry info. simple_price up cid = Inr pd \<and> member pd cid = Inr entry
           \<and> truthy entry \<and> coin_info up cid = Inr info
           \<and> r = \<lparr>name = coin_name info, symbol = toUpperCase (coin_symbol info),
                   price = usd_of entry\<rparr>"
  using assms
  by (auto simp: getCryptocurrencyData_def getCryptocurrencyData_try_def
      split: sum.splits option.splits prod.splits if_splits)

lemma getCryptocurrencyData_info_failure:
  assumes "simple_price up cid = Inr pd" and "member pd cid = Inr entry" and "truthy entry"
    and "coin_info up cid = Inl e"
  shows "getCryptocurrencyData up cid
           = (Inl (getCryptocurrencyData_catch e), [SimplePrice cid, CoinInfo cid])"
  using assms by (simp add: getCryptocurrencyData_def getCryptocurrencyData_try_def)

section \<open>The bulk request\<close>



lemma demo_fetch_ethereum:
  "getMultipleCryptocurrencyData demo_provider [''ethereum'']
     = (Inr [(''ethereum'', demo_ethereum)], [SimplePrice ''ethereum'', CoinInfo ''ethereum''])"
  by (simp add: getMultipleCryptocurrencyData_def fetch_info_def combine_def demo_provider_def
      demo_prices_def demo_ethereum_def toUpperCase_ethereum Let_def own_def
      Object_prototype_def assign_def)









section \<open>Failures\<close>

lemma toUpperCase_constructor: "toUpperCase ''constructor'' = ''CONSTRUCTOR''"
  by code_simp

lemma member_empty_constructor: "member (Object []) ''constructor'' = Inr Builtin"
  by (simp add: own_def Object_prototype_def)

text \<open>
  C5, at the identifier \<open>constructor\<close> and a provider that holds no price for it
  (the price response is \<open>{}\<close>) and does not know it. The response has no member
  of that name, but \<open>priceResponse.data['constructor']\<close> is the member every object
  inherits, which is truthy. The bulk request answers 200 with a record for the
  identifier, made of the fallback name and symbol and no price, and caches it. The
  single request goes on to the info call and answers by that call's outcome: 500 at the
  provider of the examples, whose price response is \<open>{}\<close> as well.
\<close>

theorem inherited_name_not_omitted:
  "simple_price unknown_provider ''constructor'' = Inr (Object [])
   \<and> own [] ''constructor'' = None
   \<and> member (Object []) ''constructor'' = Inr Builtin
   \<and> is_missing 2000 (cache demo_state) ''constructor''
   \<and> prices_handler unknown_provider 2000 2400 ''10.0.0.1'' ''constructor'' demo_state
     = (Response 200 (PricesBody
          [(''constructor'', \<lparr>name = ''constructor'', symbol = ''CONSTRUCTOR'', price = None\<rparr>)]),
        \<lparr>cache = (cache demo_state)(''constructor'' \<mapsto>
            \<lparr>data = \<lparr>name = ''constructor'', symbol = ''CONSTRUCTOR'', price = None\<rparr>,
             timestamp = 2400\<rparr>),
         rateLimiter = [''10.0.0.1'' \<mapsto> [1000, 2000]]\<rparr>,
        [SimplePrice ''constructor'', CoinInfo ''constructor''])
   \<and> simple_price demo_provider ''constructor'' = Inr (Object [])
   \<and> fst (price_handler demo_provider 2000 2400 ''10.0.0.1'' ''constructor'' demo_state)
     = internal_error_response"
  by (simp add: price_handler_def prices_handler_def partition_step_def spread_def assign_def
      checkRateLimit_def getCachedData_def getCryptocurrencyData_def
      getCryptocurrencyData_try_def getCryptocurrencyData_catch_def price_error_response_def
      getMultipleCryptocurrencyData_def fetch_info_def combine_def setCachedData_def
      unknown_provider_def demo_provider_def demo_prices_def demo_state_def is_missing_def
      upstream_404_def own_def Object_prototype_def toUpperCase_constructor
      trim_def is_space_def Let_def RATE_LIMIT_WINDOW_def MAX_REQUESTS_PER_MINUTE_def
      CACHE_DURATION_def)

lemma invalid_json_bitcoin: "member (text_data ''invalid json'') ''bitcoin'' = Inr Undefined"
  unfolding text_data_def by code_simp

text \<open>
  C6, at two failures that are neither a missing identifier, nor a rate limit, nor a
  timeout. A price call answered 200 with the body \<open>invalid json\<close> hands over a
  string; its member \<open>bitcoin\<close> is \<open>undefined\<close>, the fetch throws
  \<open>Cryptocurrency not found\<close> and the response is 404, where the repository's test
  \<open>should handle invalid JSON responses\<close> expects 500. An error without status and
  code whose message is \<open>Request timeout\<close> is answered 408.
\<close>

theorem other_failures_not_500:
  "simple_price invalid_json_provider ''bitcoin'' = Inr (text_data ''invalid json'')
   \<and> member (text_data ''invalid json'') ''bitcoin'' = Inr Undefined
   \<and> fst (price_handler invalid_json_provider 1000 1300 ''10.0.0.1'' ''bitcoin'' initial_state)
     = Response 404 (ErrorBody ''Cryptocurrency not found''
                      ''The specified cryptocurrency ID does not exist'')
   \<and> fst (getCryptocurrencyData_try (failing_provider marker_error) ''bitcoin'')
     = Inl marker_error
   \<and> response_status marker_error = None \<and> code marker_error = None
   \<and> fst (price_handler (failing_provider marker_error) 1000 1300 ''10.0.0.1'' ''bitcoin''
          initial_state)
     = Response 408 (ErrorBody ''Request timeout'' ''Request took too long to complete'')"
  by (simp add: invalid_json_bitcoin price_handler_def checkRateLimit_def getCachedData_def
      getCryptocurrencyData_def getCryptocurrencyData_try_def getCryptocurrencyData_catch_def
      price_error_response_def invalid_json_provider_def failing_provider_def marker_error_def
      Error_def initial_state_def RATE_LIMIT_WINDOW_def MAX_REQUESTS_PER_MINUTE_def)

section \<open>Prices and metadata\<close>

lemma toUpperCase_free: "toUpperCase ''free'' = ''FREE''"
  by code_simp

lemma demo_fetch_freecoin:
  "getCryptocurrencyData demo_provider ''freecoin''
     = (Inr demo_freecoin, [SimplePrice ''freecoin'', CoinInfo ''freecoin''])"
  by (simp add: getCryptocurrencyData_def getCryptocurrencyData_try_def demo_provider_def
      demo_prices_def demo_freecoin_def toUpperCase_free own_def)

lemma demo_fetch_bitcoin:
  "getCryptocurrencyData demo_provider ''bitcoin''
     = (Inr demo_bitcoin, [SimplePrice ''bitcoin'', CoinInfo ''bitcoin''])"
  by (simp add: getCryptocurrencyData_def getCryptocurrencyData_try_def demo_provider_def
      demo_prices_def demo_bitcoin_def toUpperCase_btc own_def)

lemma member_Object_own:
  assumes "own members k = Some v"
  shows "member (Object members) k = Inr (Json v)"
  using assms by simp

lemma member_Object_absent:
  assumes "own members k = None" and "k \<notin> set Object_prototype"
  shows "member (Object members) k = Inr Undefined"
  using assms by simp

text \<open>
  C8, as the code has it. When the price response is an object that has a member for the
  identifier, the price of the record that the single or the bulk fetch returns is the
  \<open>usd\<close> member of that entry, taken over unchecked: for an entry
  \<open>{usd: x}\<close> it is \<open>x\<close>, positive exactly when \<open>x\<close> is. An identifier for
  which the price response has no member, and which is not a name that every object
  inherits, is reported as not found by the single fetch and left out of the result by
  the bulk fetch; no record is made for it.
\<close>

theorem price_passed_through:
  "(getCryptocurrencyData up cid = (Inr r, calls)
      \<and> simple_price up cid = Inr (Object members) \<and> own members cid = Some v
      \<longrightarrow> price r = usd_of (Json v))
   \<and> (getMultipleCryptocurrencyData up ids = (Inr fresh, calls')
      \<and> simple_price up (join ids '','') = Inr (Object members')
      \<and> (k, r') \<in> set fresh \<and> own members' k = Some v'
      \<longrightarrow> price r' = usd_of (Json v'))
   \<and> usd_of (Json (JObj [(''usd'', JNum x)])) = Some (JNum x)
   \<and> (simple_price up cid = Inr (Object members) \<and> own members cid = None
      \<and> cid \<notin> set Object_prototype
      \<longrightarrow> fst (getCryptocurrencyData up cid) = Inl (Error ''Cryptocurrency not found''))
   \<and> (simple_price up (join ids '','') = Inr (Object members') \<and> own members' cid = None
      \<and> cid \<notin> set Object_prototype
      \<longrightarrow> (\<exists>fresh. fst (getMultipleCryptocurrencyData up ids) = Inr fresh
              \<and> cid \<notin> fst ` set fresh))"
proof (intro conjI impI; (elim conjE)?)
  assume g: "getCryptocurrencyData up cid = (Inr r, calls)"
    and p: "simple_price up cid = Inr (Object members)" and o: "own members cid = Some v"
  from getCryptocurrencyData_resolved [OF g] p member_Object_own [OF o]
  show "price r = usd_of (Json v)"
    by auto
next
  assume g: "getMultipleCryptocurrencyData up ids = (Inr fresh, calls')"
    and p: "simple_price up (join ids '','') = Inr (Object members')"
    and kr: "(k, r') \<in> set fresh" and o: "own members' k = Some v'"
  let ?look = "\<lambda>k. case own members' k of
                      Some v \<Rightarrow> Json v
                    | None \<Rightarrow> if k \<in> set Object_prototype then Builtin else Undefined"
  have look: "\<forall>k. member (Object members') k = Inr (?look k)" by simp
  from g p have f: "fold (combine (Object members')) (map (fetch_info up) ids) (Inr []) = Inr fresh"
    by (simp add: getMultipleCryptocurrencyData_cases)
  from fold_combine [of "[]" "Object members'" ?look up ids, OF _ look] f
  have dist: "distinct (map fst fresh)"
    and m: "map_of fresh =
           (\<lambda>cid. if cid \<in> set ids \<and> truthy (?look cid) \<and> cid \<noteq> ''__proto__''
                   then Some \<lparr>name = info_name (fetch_info up cid),
                              symbol = info_symbol (fetch_info up cid),
                              price = usd_of (?look cid)\<rparr>
                   else map_of [] cid)"
    by auto
  from dist kr have "map_of fresh k = Some r'" by simp
  with m o show "price r' = usd_of (Json v')"
    by (auto split: if_splits)
next
  show "usd_of (Json (JObj [(''usd'', JNum x)])) = Some (JNum x)"
    by (simp add: own_def)
next
  assume "simple_price up cid = Inr (Object members)" "own members cid = None"
    "cid \<notin> set Object_prototype"
  then show "fst (getCryptocurrencyData up cid) = Inl (Error ''Cryptocurrency not found'')"
    using getCryptocurrencyData_absent [of up cid "Object members" Undefined]
    by (simp add: member_Object_absent)
next
  assume p: "simple_price up (join ids '','') = Inr (Object members')"
    and o: "own members' cid = None" and n: "cid \<notin> set Object_prototype"
  let ?look = "\<lambda>k. case own members' k of
                      Some v \<Rightarrow> Json v
                    | None \<Rightarrow> if k \<in> set Object_prototype then Builtin else Undefined"
  have look: "\<forall>k. member (Object members') k = Inr (?look k)" by simp
  from fold_combine [of "[]" "Object members'" ?look up ids, OF _ look] obtain fresh where
    f: "fold (combine (Object members')) (map (fetch_info up) ids) (Inr []) = Inr fresh"
    and m: "map_of fresh =
           (\<lambda>cid. if cid \<in> set ids \<and> truthy (?look cid) \<and> cid \<noteq> ''__proto__''
                   then Some \<lparr>name = info_name (fetch_info up cid),
                              symbol = info_symbol (fetch_info up cid),
                              price = usd_of (?look cid)\<rparr>
                   else map_of [] cid)"
    by auto
  from m o n have "map_of fresh cid = None" by simp
  then have "cid \<notin> fst ` set fresh" by (simp add: map_of_eq_None_iff)
  with f p show "\<exists>fresh. fst (getMultipleCryptocurrencyData up ids) = Inr fresh
              \<and> cid \<notin> fst ` set fresh"
    by (simp add: getMultipleCryptocurrencyData_cases)
qed

lemma demo_price_calls:
  "simple_price demo_provider ''bitcoin'' = Inr (Object [(''bitcoin'', JObj [(''usd'', JNum 45000)])])"
  "simple_price demo_provider ''ethereum'' = Inr (Object [(''ethereum'', JObj [(''usd'', JNum 2800)])])"
  "simple_price demo_provider ''unknown-coin-xyz'' = Inr (Object [])"
  by (simp_all add: demo_provider_def demo_prices_def)

theorem price_passed_through_witness:
  "getCryptocurrencyData demo_provider ''bitcoin''
     = (Inr demo_bitcoin, [SimplePrice ''bitcoin'', CoinInfo ''bitcoin''])
   \<and> simple_price demo_provider ''bitcoin''
     = Inr (Object [(''bitcoin'', JObj [(''usd'', JNum 45000)])])
   \<and> own [(''bitcoin'', JObj [(''usd'', JNum 45000)])] ''bitcoin''
     = Some (JObj [(''usd'', JNum 45000)])
   \<and> price demo_bitcoin = Some (JNum 45000)
   \<and> getMultipleCryptocurrencyData demo_provider [''ethereum'']
     = (Inr [(''ethereum'', demo_ethereum)], [SimplePrice ''ethereum'', CoinInfo ''ethereum''])
   \<and> simple_price demo_provider ''ethereum''
     = Inr (Object [(''ethereum'', JObj [(''usd'', JNum 2800)])])
   \<and> own [(''ethereum'', JObj [(''usd'', JNum 2800)])] ''ethereum''
     = Some (JObj [(''usd'', JNum 2800)])
   \<and> price demo_ethereum = Some (JNum 2800)
   \<and> simple_price demo_provider ''unknown-coin-xyz'' = Inr (Object [])
   \<and> own [] ''unknown-coin-xyz'' = None
   \<and> fst (getCryptocurrencyData demo_provider ''unknown-coin-xyz'')
       = Inl (Error ''Cryptocurrency not found'')
   \<and> fst (getMultipleCryptocurrencyData demo_provider [''unknown-coin-xyz'']) = Inr []"
proof -
  have o1: "own [(''bitcoin'', JObj [(''usd'', JNum 45000)])] ''bitcoin''
     = Some (JObj [(''usd'', JNum 45000)])"
    and o2: "own [(''ethereum'', JObj [(''usd'', JNum 2800)])] ''ethereum''
     = Some (JObj [(''usd'', JNum 2800)])"
    and o3: "own [] ''unknown-coin-xyz'' = None"
    and n3: "''unknown-coin-xyz'' \<notin> set Object_prototype"
    by (simp_all add: own_def Object_prototype_def)
  have single: "price demo_bitcoin = Some (JNum 45000)"
    using price_passed_through [where up = demo_provider and cid = "''bitcoin''"
        and r = demo_bitcoin and calls = "[SimplePrice ''bitcoin'', CoinInfo ''bitcoin'']"
        and members = "[(''bitcoin'', JObj [(''usd'', JNum 45000)])]"
        and v = "JObj [(''usd'', JNum 45000)]"]
      demo_fetch_bitcoin demo_price_calls(1) o1
    by (simp add: own_def)
  have bulk: "price demo_ethereum = Some (JNum 2800)"
    using price_passed_through [where up = demo_provider and ids = "[''ethereum'']"
        and fresh = "[(''ethereum'', demo_ethereum)]"
        and calls' = "[SimplePrice ''ethereum'', CoinInfo ''ethereum'']"
        and members' = "[(''ethereum'', JObj [(''usd'', JNum 2800)])]"
        and k = "''ethereum''" and r' = demo_ethereum and v' = "JObj [(''usd'', JNum 2800)]"]
      demo_fetch_ethereum demo_price_calls(2) o2
    by (simp add: own_def)
  have absent: "fst (getCryptocurrencyData demo_provider ''unknown-coin-xyz'')
       = Inl (Error ''Cryptocurrency not found'')"
    using price_passed_through [where up = demo_provider and cid = "''unknown-coin-xyz''"
        and members = "[]"]
      demo_price_calls(3) o3 n3
    by blast
  have omitted: "fst (getMultipleCryptocurrencyData demo_provider [''unknown-coin-xyz'']) = Inr []"
    by (simp add: getMultipleCryptocurrencyData_def fetch_info_def combine_def
        demo_provider_def demo_prices_def Let_def own_def Object_prototype_def)
  from single bulk absent omitted o1 o2 o3 show ?thesis
    by (simp add: demo_fetch_bitcoin demo_fetch_ethereum demo_price_calls)
qed

text \<open>
  C8 as stated fails: the provider's value 0 for \<open>freecoin\<close> comes back as the
  price of a resolved record.
\<close>

theorem zero_price_counterexample:
  "fst (getCryptocurrencyData demo_provider ''freecoin'') = Inr demo_freecoin
   \<and> price demo_freecoin = Some (JNum 0)
   \<and> \<not> (0 :: real) < 0"
  by (simp add: demo_fetch_freecoin demo_freecoin_def)

lemma fetch_info_fallback:
  assumes "coin_info up cid = Inl e"
  shows "fetch_info up cid = InfoResult cid cid (toUpperCase cid)"
  using assms by (simp add: fetch_info_def)

text \<open>
  C1, at the provider of the examples, which holds a price for \<open>ethereum\<close> and
  answers its info call with status 500. The bulk fetch returns the record with the
  identifier as name and its upper-case form as symbol. The single fetch has both calls
  in one \<open>try\<close>: it throws the error of the info call, and \<open>GET /price/:id\<close>
  answers 500.
\<close>

theorem single_fetch_metadata_failure:
  "fst (getCryptocurrencyData demo_provider ''ethereum'')
     = Inl \<lparr>response_status = Some 500, code = None,
            message = ''Request failed with status code 500''\<rparr>
   \<and> fst (price_handler demo_provider 1000 1300 ''10.0.0.1'' ''ethereum'' initial_state)
     = internal_error_response
   \<and> fst (getMultipleCryptocurrencyData demo_provider [''ethereum''])
     = Inr [(''ethereum'',
             \<lparr>name = ''ethereum'', symbol = ''ETHEREUM'', price = Some (JNum 2800)\<rparr>)]"
  by (simp add: demo_fetch_ethereum demo_ethereum_def)
    (simp add: price_handler_def checkRateLimit_def getCachedData_def initial_state_def
      getCryptocurrencyData_def getCryptocurrencyData_try_def getCryptocurrencyData_catch_def
      price_error_response_def demo_provider_def demo_prices_def own_def
      RATE_LIMIT_WINDOW_def MAX_REQUESTS_PER_MINUTE_def)

end
